theory Spec2Isabelle
  imports Main "HOL-Library.AList"
begin

section \<open>Strings of the client\<close>

text \<open>
  The client handles resource types, PIDs and tokens as JavaScript strings. They are
  modelled as \<^typ>\<open>string\<close>, one \<^typ>\<open>char\<close> per UTF-16 code unit, which
  covers the code units U+0000 to U+00FF. On that range \<open>encodeURIComponent\<close> never
  throws (its \<open>URIError\<close> needs a lone surrogate), and the white space that
  \<open>String.prototype.trim\<close> removes is TAB, LF, VT, FF, CR, SPACE and NBSP.
\<close>

definition isWhiteSpace :: "char \<Rightarrow> bool" where
  "isWhiteSpace c = (of_char c \<in> {9, 10, 11, 12, 13, 32, 160 :: nat})"

definition trim :: "string \<Rightarrow> string" where
  "trim s = rev (dropWhile isWhiteSpace (rev (dropWhile isWhiteSpace s)))"

text \<open>
  \<open>encodeURIComponent\<close> keeps the characters \<open>A-Z a-z 0-9 - _ . ! ~ * ' ( )\<close> and
  writes every other code unit as the bytes of its UTF-8 encoding, each byte as \<open>%XX\<close>
  with upper-case hexadecimal digits: one byte below U+0080, two bytes from there to U+00FF.
\<close>

definition uriUnescaped :: "char \<Rightarrow> bool" where
  "uriUnescaped c =
     (let n = (of_char c :: nat)
      in (65 \<le> n \<and> n \<le> 90) \<or> (97 \<le> n \<and> n \<le> 122) \<or> (48 \<le> n \<and> n \<le> 57)
         \<or> n \<in> {45, 95, 46, 33, 126, 42, 39, 40, 41})"

definition hexDigit :: "nat \<Rightarrow> char" where
  "hexDigit n = ''0123456789ABCDEF'' ! (n mod 16)"

definition percentByte :: "nat \<Rightarrow> string" where
  "percentByte b = [CHR ''%'', hexDigit (b div 16), hexDigit b]"

definition encodeChar :: "char \<Rightarrow> string" where
  "encodeChar c =
     (let n = (of_char c :: nat)
      in if uriUnescaped c then [c]
         else if n < 128 then percentByte n
         else percentByte (192 + n div 64) @ percentByte (128 + n mod 64))"

definition encodeURIComponent :: "string \<Rightarrow> string" where
  "encodeURIComponent s = concat (map encodeChar s)"

text \<open>\<open>prefixUrl.replace(/\/+$/, "")\<close>: the trailing slashes are removed.\<close>

definition stripTrailingSlashes :: "string \<Rightarrow> string" where
  "stripTrailingSlashes s = rev (dropWhile (\<lambda>c. c = CHR ''/'') (rev s))"

section \<open>Constants of the client\<close>

definition DEFAULT_TYPES :: "string list" where
  "DEFAULT_TYPES = [''datasetChanges'', ''citations'']"

datatype message = prefixUrlMsg | getTokenMsg | validatePIDMsg | resourceTypesMsg
  | resourceTypeMsg | noPid | invalidPid | noToken

fun ERROR_MESSAGES :: "message \<Rightarrow> string" where
  "ERROR_MESSAGES prefixUrlMsg = ''prefixUrl is required''"
| "ERROR_MESSAGES getTokenMsg = ''A getToken function is required''"
| "ERROR_MESSAGES validatePIDMsg = ''validatePID must be a function''"
| "ERROR_MESSAGES resourceTypesMsg = ''resourceTypes must be a non-empty array of strings''"
| "ERROR_MESSAGES resourceTypeMsg = ''Invalid resource type''"
| "ERROR_MESSAGES noPid = ''PID is required''"
| "ERROR_MESSAGES invalidPid = ''PID is invalid''"
| "ERROR_MESSAGES noToken = ''Token is required''"

datatype HttpMethod = GET | POST | DELETE

section \<open>Values, options and errors\<close>

text \<open>
  A value of type \<open>T | null | undefined\<close>: the PID argument and the token that the
  token supplier resolves to.
\<close>

datatype 'a nullable = Null | Undefined | Value 'a

text \<open>
  A property of an options object: the key is absent, present with the value
  \<open>undefined\<close>, or present with a value. An object spread copies a present key also when
  its value is \<open>undefined\<close>; a destructuring default applies to an absent key and to the
  value \<open>undefined\<close> alike.
\<close>

datatype 'a field = Absent | PresentUndefined | Present 'a

definition spread :: "'a field \<Rightarrow> 'a field \<Rightarrow> 'a field" where
  "spread own given = (case given of Absent \<Rightarrow> own | _ \<Rightarrow> given)"

definition orDefault :: "'a \<Rightarrow> 'a field \<Rightarrow> 'a" where
  "orDefault d f = (case f of Present v \<Rightarrow> v | _ \<Rightarrow> d)"

text \<open>
  A thrown value: the client's own \<open>new TypeError(message)\<close> and \<open>new Error(message)\<close>,
  and whatever a collaborator (token supplier, PID validator, transport, JSON decoder)
  throws or rejects with, which the client passes on untouched.
\<close>

datatype 'e error = TypeError string | Error string | Rejected 'e

type_synonym headers = "(string \<times> string) list"

text \<open>
  The options object a caller hands to a public operation, as it arrives at run time.
  The type \<open>KyRequestOptions\<close> declares none of \<open>resourceType\<close>, \<open>method\<close>,
  \<open>pidRequired\<close> and \<open>headers\<close>, but an object that carries them is spread all the same,
  so the record has a slot for each; \<open>opt_rest\<close> stands for all other transport
  options (timeout, hooks, signal and so on), which the client never reads.
\<close>

record 'r KyRequestOptions =
  opt_resourceType :: "string option"
  opt_method :: "HttpMethod field"
  opt_pidRequired :: "bool field"
  opt_headers :: "headers field"
  opt_rest :: 'r

text \<open>The default \<open>options = {}\<close> of the public operations.\<close>

definition noOptions :: "'r \<Rightarrow> 'r KyRequestOptions" where
  "noOptions r = \<lparr>opt_resourceType = None, opt_method = Absent, opt_pidRequired = Absent,
     opt_headers = Absent, opt_rest = r\<rparr>"

text \<open>\<open>InternalRequestOptions\<close>: what \<open>request\<close> receives after the spread.\<close>

record 'r InternalRequestOptions =
  req_resourceType :: string
  req_method :: "HttpMethod field"
  req_pidRequired :: "bool field"
  req_headers :: "headers field"
  req_rest :: 'r

text \<open>The options object of one transport call; \<open>None\<close> is a \<open>headers: undefined\<close>.\<close>

record 'r KyOptions =
  ky_method :: HttpMethod
  ky_headers :: "headers option"
  ky_rest :: 'r

text \<open>The response of the transport: its status and its JSON-decode operation.\<close>

record ('e, 'j) Response =
  status :: int
  json :: "unit \<Rightarrow> 'e + 'j"

section \<open>The client\<close>

text \<open>
  The fields of a constructed \<open>NotificationClient\<close>. The collaborators are functions
  that either fail (\<open>Inl\<close>, a throw or a rejected promise) or resolve to a value.
\<close>

record ('e, 'j, 'r) NotificationClient =
  prefixUrl :: string
  getToken :: "unit \<Rightarrow> 'e + string nullable"
  validatePID :: "string \<Rightarrow> 'e + bool"
  resourceTypes :: "string set"
  ky :: "string \<Rightarrow> 'r KyOptions \<Rightarrow> 'e + ('e, 'j) Response"

text \<open>
  The calls a request makes on its collaborators, in the order in which it makes them.
  Every function below returns this log together with its result, so that "is never
  invoked" and "is invoked exactly once" are statements about the log.
\<close>

datatype 'r event =
    ValidatePID string
  | GetToken
  | Ky string "'r KyOptions"
  | Json

text \<open>
  \<open>NotificationClient.request\<close>. The result \<open>Inr None\<close> is a promise resolved to
  \<open>undefined\<close>, \<open>Inr (Some v)\<close> one resolved to the decoded body, \<open>Inl e\<close> a rejected one.
\<close>

definition request ::
  "('e, 'j, 'r) NotificationClient \<Rightarrow> string nullable \<Rightarrow> 'r InternalRequestOptions
     \<Rightarrow> 'r event list \<times> ('e error + 'j option)" where
  "request this pid opts =
    (let resourceType = req_resourceType opts;
         method = orDefault GET (req_method opts);
         pidRequired = orDefault True (req_pidRequired opts);
         normalizedResourceType = trim resourceType
     in
     if normalizedResourceType \<notin> resourceTypes this
     then ([], Inl (TypeError (ERROR_MESSAGES resourceTypeMsg)))
     else
     let normalizedPid = (case pid of Value p \<Rightarrow> trim p | _ \<Rightarrow> [])
     in
     if pidRequired \<and> length normalizedPid = 0
     then ([], Inl (TypeError (ERROR_MESSAGES noPid)))
     else
     let checked =
       (if pidRequired \<and> length normalizedPid > 0
        then (case validatePID this normalizedPid of
                Inl e \<Rightarrow> ([ValidatePID normalizedPid], Inl (Rejected e))
              | Inr isValid \<Rightarrow>
                  if \<not> isValid
                  then ([ValidatePID normalizedPid], Inl (TypeError (ERROR_MESSAGES invalidPid)))
                  else ([ValidatePID normalizedPid], Inr ()))
        else ([], Inr ()))
     in
     case checked of
       (log, Inl e) \<Rightarrow> (log, Inl e)
     | (log, Inr _) \<Rightarrow>
        (case getToken this () of
           Inl e \<Rightarrow> (log @ [GetToken], Inl (Rejected e))
         | Inr (Value token) \<Rightarrow>
            if token = [] then (log @ [GetToken], Inl (Error (ERROR_MESSAGES noToken)))
            else
            let endpoint = encodeURIComponent normalizedResourceType;
                endpoint = (if pidRequired \<and> length normalizedPid > 0
                            then endpoint @ ''/'' @ encodeURIComponent normalizedPid
                            else endpoint);
                kyOptions = \<lparr>ky_method = method,
                   ky_headers = (case req_headers opts of
                       Absent \<Rightarrow> Some [(''Authorization'', ''Bearer '' @ token)]
                     | PresentUndefined \<Rightarrow> None
                     | Present h \<Rightarrow> Some h),
                   ky_rest = req_rest opts\<rparr>;
                log = log @ [GetToken, Ky endpoint kyOptions]
            in (case ky this endpoint kyOptions of
                  Inl e \<Rightarrow> (log, Inl (Rejected e))
                | Inr response \<Rightarrow>
                    if status response \<in> set [204, 205, 304] then (log, Inr None)
                    else (case json response () of
                            Inl e \<Rightarrow> (log @ [Json], Inl (Rejected e))
                          | Inr body \<Rightarrow> (log @ [Json], Inr (Some body))))
         | Inr _ \<Rightarrow> (log @ [GetToken], Inl (Error (ERROR_MESSAGES noToken)))))"

text \<open>
  The object literal \<open>{ resourceType, method: M, pidRequired: P, ...options }\<close> of the
  public operations: the caller's options come last and win on every key they carry.
\<close>

definition withOptions ::
  "string \<Rightarrow> HttpMethod \<Rightarrow> bool \<Rightarrow> 'r KyRequestOptions \<Rightarrow> 'r InternalRequestOptions" where
  "withOptions resourceType m p options =
     \<lparr>req_resourceType = (case opt_resourceType options of None \<Rightarrow> resourceType | Some t \<Rightarrow> t),
      req_method = spread (Present m) (opt_method options),
      req_pidRequired = spread (Present p) (opt_pidRequired options),
      req_headers = opt_headers options,
      req_rest = opt_rest options\<rparr>"

definition subscribe ::
  "('e, 'j, 'r) NotificationClient \<Rightarrow> string nullable \<Rightarrow> string \<Rightarrow> 'r KyRequestOptions
     \<Rightarrow> 'r event list \<times> ('e error + 'j option)" where
  "subscribe this pid resourceType options =
     request this pid (withOptions resourceType POST True options)"

text \<open>\<open>unsubscribe\<close> awaits the request and returns nothing: a decoded body is dropped.\<close>

definition unsubscribe ::
  "('e, 'j, 'r) NotificationClient \<Rightarrow> string nullable \<Rightarrow> string \<Rightarrow> 'r KyRequestOptions
     \<Rightarrow> 'r event list \<times> ('e error + 'j option)" where
  "unsubscribe this pid resourceType options =
     (case request this pid (withOptions resourceType DELETE True options) of
        (log, Inl e) \<Rightarrow> (log, Inl e)
      | (log, Inr _) \<Rightarrow> (log, Inr None))"

definition getSubscriptions ::
  "('e, 'j, 'r) NotificationClient \<Rightarrow> string \<Rightarrow> 'r KyRequestOptions
     \<Rightarrow> 'r event list \<times> ('e error + 'j option)" where
  "getSubscriptions this resourceType options =
     request this Null (withOptions resourceType GET False options)"

section \<open>Construction\<close>

text \<open>
  An argument that should be a function: not given (\<open>undefined\<close>), given as something
  that is not a function (and is truthy), or given as a function.
\<close>

datatype 'f argument = NotGiven | NotFunction | Function 'f

text \<open>
  \<open>NotificationClientOptions\<close>. \<open>cfg_resourceTypes = None\<close> and
  \<open>cfg_kyInstance = None\<close> are the omitted fields; \<open>cfg_kyOptions\<close> is handed to
  \<open>ky.create\<close> as it is.
\<close>

record ('e, 'j, 'r, 'k) NotificationClientOptions =
  cfg_prefixUrl :: "string nullable"
  cfg_getToken :: "(unit \<Rightarrow> 'e + string nullable) argument"
  cfg_validatePID :: "(string \<Rightarrow> 'e + bool) argument"
  cfg_resourceTypes :: "string list option"
  cfg_kyOptions :: 'k
  cfg_kyInstance :: "(string \<Rightarrow> 'r KyOptions \<Rightarrow> 'e + ('e, 'j) Response) option"

text \<open>\<open>Array.from(new Set(xs))\<close>: the first occurrence of each element, in order.\<close>

definition setAdd :: "'a list \<Rightarrow> 'a \<Rightarrow> 'a list" where
  "setAdd seen x = (if x \<in> set seen then seen else seen @ [x])"

definition arrayFromSet :: "'a list \<Rightarrow> 'a list" where
  "arrayFromSet xs = foldl setAdd [] xs"

definition normalizeResourceTypes :: "string list \<Rightarrow> string list" where
  "normalizeResourceTypes types =
     arrayFromSet (filter (\<lambda>type. length type > 0) (map trim types))"

text \<open>
  The constructor. \<open>ky.create\<close> belongs to the HTTP library and is a parameter here; it
  receives the stripped \<open>prefixUrl\<close> and the \<open>kyOptions\<close>. A thrown \<open>TypeError\<close> is
  \<open>Inl\<close>, and then there is no client.
\<close>

definition newNotificationClient ::
  "(string \<Rightarrow> 'k \<Rightarrow> string \<Rightarrow> 'r KyOptions \<Rightarrow> 'e + ('e, 'j) Response)
     \<Rightarrow> ('e, 'j, 'r, 'k) NotificationClientOptions
     \<Rightarrow> 'e error + ('e, 'j, 'r) NotificationClient" where
  "newNotificationClient kyCreate cfg =
    (case cfg_prefixUrl cfg of
       Value url \<Rightarrow>
        if url = [] then Inl (TypeError (ERROR_MESSAGES prefixUrlMsg))
        else
        (case cfg_getToken cfg of
           Function tokenSupplier \<Rightarrow>
            (case cfg_validatePID cfg of
               NotFunction \<Rightarrow> Inl (TypeError (ERROR_MESSAGES validatePIDMsg))
             | given \<Rightarrow>
                let normalizedTypes = normalizeResourceTypes
                      (case cfg_resourceTypes cfg of None \<Rightarrow> DEFAULT_TYPES | Some types \<Rightarrow> types)
                in
                if length normalizedTypes = 0
                then Inl (TypeError (ERROR_MESSAGES resourceTypesMsg))
                else
                let stripped = stripTrailingSlashes url
                in Inr \<lparr>prefixUrl = stripped,
                        getToken = tokenSupplier,
                        validatePID = (case given of Function validator \<Rightarrow> validator
                                       | _ \<Rightarrow> (\<lambda>_. Inr True)),
                        resourceTypes = set normalizedTypes,
                        ky = (case cfg_kyInstance cfg of Some instance \<Rightarrow> instance
                              | None \<Rightarrow> kyCreate stripped (cfg_kyOptions cfg))\<rparr>)
         | _ \<Rightarrow> Inl (TypeError (ERROR_MESSAGES getTokenMsg)))
     | _ \<Rightarrow> Inl (TypeError (ERROR_MESSAGES prefixUrlMsg)))"

section \<open>The JavaScript client \<open>NotificationService\<close>\<close>

text \<open>
  The repository also holds the client as a JavaScript class, \<open>NotificationService\<close>,
  with the same fields and the same three public operations. Its \<open>_request\<close> does not
  trim, takes \<open>headers\<close> out of the options and merges them key by key over its own
  \<open>Authorization\<close> header. An object spread \<open>{...a, ...b}\<close> keeps the keys of \<open>a\<close> in
  place, with the values of \<open>b\<close> where both have the key, and appends the other keys of
  \<open>b\<close>.
\<close>

definition objectSpread :: "('k \<times> 'v) list \<Rightarrow> ('k \<times> 'v) list \<Rightarrow> ('k \<times> 'v) list" where
  "objectSpread a b = fold (\<lambda>(k, v) acc. AList.update k v acc) b a"

text \<open>
  \<open>_validateResourceType\<close>: a resource type must be a string and a member of the set;
  \<open>typeof resourceType === "string"\<close> holds of every \<^typ>\<open>string\<close>.
\<close>

definition validateResourceType :: "('e, 'j, 'r) NotificationClient \<Rightarrow> string \<Rightarrow> bool" where
  "validateResourceType this resourceType = (resourceType \<in> resourceTypes this)"

definition service_request ::
  "('e, 'j, 'r) NotificationClient \<Rightarrow> string nullable \<Rightarrow> 'r InternalRequestOptions
     \<Rightarrow> 'r event list \<times> ('e error + 'j option)" where
  "service_request this pid opts =
    (let resourceType = req_resourceType opts;
         method = orDefault GET (req_method opts);
         pidRequired = orDefault True (req_pidRequired opts);
         headers = req_headers opts
     in
     if \<not> validateResourceType this resourceType
     then ([], Inl (TypeError (ERROR_MESSAGES resourceTypeMsg)))
     else
     let pidString = (case pid of Value p \<Rightarrow> p | _ \<Rightarrow> [])
     in
     if pidRequired \<and> pidString = []
     then ([], Inl (TypeError (ERROR_MESSAGES noPid)))
     else
     let checked =
       (if pidRequired
        then (case validatePID this pidString of
                Inl e \<Rightarrow> ([ValidatePID pidString], Inl (Rejected e))
              | Inr ok \<Rightarrow>
                  if \<not> ok
                  then ([ValidatePID pidString], Inl (TypeError (ERROR_MESSAGES invalidPid)))
                  else ([ValidatePID pidString], Inr ()))
        else ([], Inr ()))
     in
     case checked of
       (log, Inl e) \<Rightarrow> (log, Inl e)
     | (log, Inr _) \<Rightarrow>
        (case getToken this () of
           Inl e \<Rightarrow> (log @ [GetToken], Inl (Rejected e))
         | Inr (Value token) \<Rightarrow>
            if token = [] then (log @ [GetToken], Inl (Error (ERROR_MESSAGES noToken)))
            else
            let authHeader = [(''Authorization'', ''Bearer '' @ token)];
                mergedHeaders = objectSpread authHeader
                                  (case headers of Present h \<Rightarrow> h | _ \<Rightarrow> []);
                endpoint = encodeURIComponent resourceType;
                endpoint = (if pidRequired
                            then endpoint @ ''/'' @ encodeURIComponent pidString
                            else endpoint);
                kyOptions = \<lparr>ky_method = method, ky_headers = Some mergedHeaders,
                             ky_rest = req_rest opts\<rparr>;
                log = log @ [GetToken, Ky endpoint kyOptions]
            in (case ky this endpoint kyOptions of
                  Inl e \<Rightarrow> (log, Inl (Rejected e))
                | Inr response \<Rightarrow>
                    if status response \<in> set [204, 205, 304] then (log, Inr None)
                    else (case json response () of
                            Inl e \<Rightarrow> (log @ [Json], Inl (Rejected e))
                          | Inr body \<Rightarrow> (log @ [Json], Inr (Some body))))
         | Inr _ \<Rightarrow> (log @ [GetToken], Inl (Error (ERROR_MESSAGES noToken)))))"

definition service_subscribe ::
  "('e, 'j, 'r) NotificationClient \<Rightarrow> string nullable \<Rightarrow> string \<Rightarrow> 'r KyRequestOptions
     \<Rightarrow> 'r event list \<times> ('e error + 'j option)" where
  "service_subscribe this pid resourceType options =
     service_request this pid (withOptions resourceType POST True options)"

definition service_unsubscribe ::
  "('e, 'j, 'r) NotificationClient \<Rightarrow> string nullable \<Rightarrow> string \<Rightarrow> 'r KyRequestOptions
     \<Rightarrow> 'r event list \<times> ('e error + 'j option)" where
  "service_unsubscribe this pid resourceType options =
     service_request this pid (withOptions resourceType DELETE True options)"

definition service_getSubscriptions ::
  "('e, 'j, 'r) NotificationClient \<Rightarrow> string \<Rightarrow> 'r KyRequestOptions
     \<Rightarrow> 'r event list \<times> ('e error + 'j option)" where
  "service_getSubscriptions this resourceType options =
     service_request this Null (withOptions resourceType GET False options)"

section \<open>Reading a log\<close>

text \<open>The transport calls of a log: endpoint and options of each, in order.\<close>

fun kyCalls :: "'r event list \<Rightarrow> (string \<times> 'r KyOptions) list" where
  "kyCalls [] = []"
| "kyCalls (Ky endpoint options # es) = (endpoint, options) # kyCalls es"
| "kyCalls (ValidatePID p # es) = kyCalls es"
| "kyCalls (GetToken # es) = kyCalls es"
| "kyCalls (Json # es) = kyCalls es"

text \<open>The PIDs handed to the PID validator in a log.\<close>

fun validatorCalls :: "'r event list \<Rightarrow> string list" where
  "validatorCalls [] = []"
| "validatorCalls (ValidatePID p # es) = p # validatorCalls es"
| "validatorCalls (Ky endpoint options # es) = validatorCalls es"
| "validatorCalls (GetToken # es) = validatorCalls es"
| "validatorCalls (Json # es) = validatorCalls es"

text \<open>The endpoints, the headers and the methods of the transport calls of a log.\<close>

definition endpoints :: "'r event list \<Rightarrow> string list" where
  "endpoints log = map fst (kyCalls log)"

definition sentHeaders :: "'r event list \<Rightarrow> headers option list" where
  "sentHeaders log = map (\<lambda>call. ky_headers (snd call)) (kyCalls log)"


section \<open>A client built on mocks\<close>

text \<open>
  The client of the test suite: the default resource types, a token supplier and a PID
  validator that return fixed values, and a transport that resolves to one fixed response.
\<close>

definition mockResponse :: "int \<Rightarrow> unit + string \<Rightarrow> (unit, string) Response" where
  "mockResponse code body = \<lparr>status = code, json = (\<lambda>u. body)\<rparr>"

definition mockClient ::
  "unit + string nullable \<Rightarrow> unit + bool \<Rightarrow> int \<Rightarrow> unit + string
     \<Rightarrow> (unit, string, unit) NotificationClient" where
  "mockClient token valid code body =
     \<lparr>prefixUrl = ''https://api.example.org/v1'',
      getToken = (\<lambda>u. token),
      validatePID = (\<lambda>pid. valid),
      resourceTypes = set DEFAULT_TYPES,
      ky = (\<lambda>endpoint options. Inr (mockResponse code body))\<rparr>"

text \<open>
  A constructor input in the same style: the given \<open>prefixUrl\<close> and \<open>resourceTypes\<close>,
  a token supplier that returns a fixed token, no PID validator, and no transport instance,
  so that the transport comes from \<open>ky.create\<close>, mocked as well.
\<close>

definition mockGetToken :: "unit \<Rightarrow> unit + string nullable" where
  "mockGetToken u = Inr (Value ''token-123'')"

definition mockKyCreate ::
  "string \<Rightarrow> unit \<Rightarrow> string \<Rightarrow> unit KyOptions \<Rightarrow> unit + (unit, string) Response" where
  "mockKyCreate url kyOptions endpoint options = Inr (mockResponse 200 (Inr ''{}''))"

definition mockConfig ::
  "string nullable \<Rightarrow> string list option
     \<Rightarrow> (unit, string, unit, unit) NotificationClientOptions" where
  "mockConfig url types =
     \<lparr>cfg_prefixUrl = url,
      cfg_getToken = Function mockGetToken,
      cfg_validatePID = NotGiven,
      cfg_resourceTypes = types,
      cfg_kyOptions = (),
      cfg_kyInstance = None\<rparr>"

section \<open>Facts about the string functions\<close>

lemma trim_empty_iff: "trim s = [] \<longleftrightarrow> (\<forall>c \<in> set s. isWhiteSpace c)"
proof
  assume "trim s = []"
  then have all: "\<forall>c \<in> set (dropWhile isWhiteSpace s). isWhiteSpace c"
    by (simp add: trim_def)
  have "dropWhile isWhiteSpace s = []"
  proof (rule ccontr)
    assume ne: "dropWhile isWhiteSpace s \<noteq> []"
    then have "\<not> isWhiteSpace (hd (dropWhile isWhiteSpace s))" by (rule hd_dropWhile)
    moreover have "hd (dropWhile isWhiteSpace s) \<in> set (dropWhile isWhiteSpace s)"
      using ne by (rule hd_in_set)
    ultimately show False using all by blast
  qed
  then show "\<forall>c \<in> set s. isWhiteSpace c" by simp
next
  assume "\<forall>c \<in> set s. isWhiteSpace c"
  then show "trim s = []" by (auto simp: trim_def dest: set_dropWhileD)
qed

lemma hexDigit_cases: "hexDigit n \<in> set ''0123456789ABCDEF''"
proof -
  have "n mod 16 < length ''0123456789ABCDEF''" by simp
  then show ?thesis unfolding hexDigit_def by (rule nth_mem)
qed

lemma hexDigit_not_slash: "CHR ''/'' \<noteq> hexDigit n"
  using hexDigit_cases [of n] by auto

lemma slash_escaped: "\<not> uriUnescaped CHR ''/''"
  by (simp add: uriUnescaped_def)

lemma percentByte_no_slash: "CHR ''/'' \<notin> set (percentByte b)"
  by (simp add: percentByte_def hexDigit_not_slash)

lemma encodeChar_no_slash: "CHR ''/'' \<notin> set (encodeChar c)"
proof (cases "uriUnescaped c")
  case True
  then have "c \<noteq> CHR ''/''" using slash_escaped by blast
  then show ?thesis using True by (simp add: encodeChar_def)
next
  case False
  then show ?thesis by (simp add: encodeChar_def Let_def percentByte_no_slash)
qed

lemma encodeURIComponent_no_slash: "CHR ''/'' \<notin> set (encodeURIComponent s)"
  by (simp add: encodeURIComponent_def encodeChar_no_slash)

lemma encodeChar_slash: "encodeChar CHR ''/'' = ''%2F''"
  by (simp add: encodeChar_def uriUnescaped_def percentByte_def hexDigit_def)

section \<open>Facts about the containers\<close>

lemma setAdd_not_Nil: "setAdd seen x \<noteq> []"
  by (auto simp: setAdd_def)

lemma foldl_setAdd_Nil: "foldl setAdd acc xs = [] \<longleftrightarrow> xs = [] \<and> acc = []"
  by (induction xs arbitrary: acc) (simp_all add: setAdd_not_Nil)

lemma arrayFromSet_Nil: "arrayFromSet xs = [] \<longleftrightarrow> xs = []"
  by (simp add: arrayFromSet_def foldl_setAdd_Nil)

lemma normalizeResourceTypes_Nil:
  "normalizeResourceTypes types = [] \<longleftrightarrow> (\<forall>t \<in> set types. trim t = [])"
  by (simp add: normalizeResourceTypes_def arrayFromSet_Nil filter_empty_conv)

lemma map_of_objectSpread:
  "distinct (map fst b) \<Longrightarrow> map_of (objectSpread a b) = map_of a ++ map_of b"
  unfolding objectSpread_def
proof (induction b arbitrary: a)
  case Nil
  then show ?case by simp
next
  case (Cons p b)
  obtain k v where p: "p = (k, v)" by (cases p)
  have "k \<notin> fst ` set b" using Cons.prems p by simp
  then have nb: "map_of b k = None" by (simp add: map_of_eq_None_iff)
  have d: "distinct (map fst b)" using Cons.prems by simp
  have "map_of (fold (\<lambda>(k, v). AList.update k v) (p # b) a)
      = map_of (fold (\<lambda>(k, v). AList.update k v) b (AList.update k v a))"
    by (simp add: p)
  also have "\<dots> = map_of (AList.update k v a) ++ map_of b"
    by (rule Cons.IH [OF d])
  also have "\<dots> = map_of a ++ map_of (p # b)"
  proof (rule ext)
    fix x
    show "(map_of (AList.update k v a) ++ map_of b) x = (map_of a ++ map_of (p # b)) x"
      using nb by (cases "x = k") (simp_all add: p update_conv' map_add_def split: option.splits)
  qed
  finally show ?case .
qed

section \<open>The steps of \<open>request\<close>, one at a time\<close>

lemma request_invalid_type:
  "trim (req_resourceType opts) \<notin> resourceTypes this \<Longrightarrow>
   request this pid opts = ([], Inl (TypeError ''Invalid resource type''))"
  by (simp add: request_def Let_def)

lemma request_no_pid:
  assumes "trim (req_resourceType opts) \<in> resourceTypes this"
    and "orDefault True (req_pidRequired opts)"
    and "(case pid of Value p \<Rightarrow> trim p | _ \<Rightarrow> []) = []"
  shows "request this pid opts = ([], Inl (TypeError ''PID is required''))"
  using assms by (simp add: request_def Let_def)

lemma request_invalid_pid:
  assumes "trim (req_resourceType opts) \<in> resourceTypes this"
    and "orDefault True (req_pidRequired opts)"
    and "pid = Value p" and "trim p \<noteq> []"
    and "validatePID this (trim p) = Inr False"
  shows "request this pid opts = ([ValidatePID (trim p)], Inl (TypeError ''PID is invalid''))"
  using assms by (simp add: request_def Let_def)

lemma request_no_token:
  assumes "trim (req_resourceType opts) \<in> resourceTypes this"
    and "orDefault True (req_pidRequired opts)"
    and "pid = Value p" and "trim p \<noteq> []"
    and "validatePID this (trim p) = Inr True"
    and "getToken this () = Inr token"
    and "token = Null \<or> token = Undefined \<or> token = Value []"
  shows "request this pid opts
           = ([ValidatePID (trim p), GetToken], Inl (Error ''Token is required''))"
  using assms by (auto simp: request_def Let_def)

lemma pidRequired_kept:
  "given \<noteq> Present False \<Longrightarrow> orDefault True (spread (Present True) given)"
  by (cases given) (simp_all add: orDefault_def spread_def)

lemma request_null_never_validates: "validatorCalls (fst (request this Null opts)) = []"
  by (simp add: request_def Let_def split: sum.splits nullable.splits)




lemma kyCalls_append: "kyCalls (xs @ ys) = kyCalls xs @ kyCalls ys"
  by (induction xs rule: kyCalls.induct) simp_all


text \<open>What a request that resolves has done.\<close>

lemma request_resolved:
  assumes "snd (request this pid opts) = Inr v"
  shows "\<exists>token.
     trim (req_resourceType opts) \<in> resourceTypes this
   \<and> getToken this () = Inr (Value token) \<and> token \<noteq> []
   \<and> kyCalls (fst (request this pid opts)) =
        [(encodeURIComponent (trim (req_resourceType opts)) @
            (if orDefault True (req_pidRequired opts)
             then ''/'' @ encodeURIComponent (case pid of Value p \<Rightarrow> trim p | _ \<Rightarrow> [])
             else []),
          \<lparr>ky_method = orDefault GET (req_method opts),
            ky_headers = (case req_headers opts of
                            Absent \<Rightarrow> Some [(''Authorization'', ''Bearer '' @ token)]
                          | PresentUndefined \<Rightarrow> None
                          | Present h \<Rightarrow> Some h),
            ky_rest = req_rest opts\<rparr>)]
   \<and> (orDefault True (req_pidRequired opts) \<longrightarrow> (\<exists>p. pid = Value p \<and> trim p \<noteq> []
          \<and> validatePID this (trim p) = Inr True))"
  using assms
  by (auto simp: request_def Let_def kyCalls_append
           split: if_splits sum.splits nullable.splits)


text \<open>What a request does once the transport has answered.\<close>

lemma request_after_transport:
  assumes "kyCalls (fst (request this pid opts)) = [(endpoint, kyOptions)]"
    and "ky this endpoint kyOptions = Inr response"
  shows "snd (request this pid opts) =
           (if status response \<in> {204, 205, 304} then Inr None
            else case json response () of
                   Inl e \<Rightarrow> Inl (Rejected e)
                 | Inr body \<Rightarrow> Inr (Some body))"
    and "Json \<in> set (fst (request this pid opts)) \<longleftrightarrow> status response \<notin> {204, 205, 304}"
  using assms
  by (auto simp: request_def Let_def kyCalls_append
           split: if_splits sum.splits nullable.splits)

lemma request_headers:
  assumes "snd (request this pid opts) = Inr v"
    and "req_headers opts = Absent"
    and "getToken this () = Inr (Value token)"
  shows "sentHeaders (fst (request this pid opts))
           = [Some [(''Authorization'', ''Bearer '' @ token)]]"
  using request_resolved [OF assms(1)] assms(2,3) by (auto simp: sentHeaders_def)

text \<open>\<open>unsubscribe\<close> is the request with its value dropped.\<close>

lemma unsubscribe_log:
  "fst (unsubscribe this pid resourceType options)
     = fst (request this pid (withOptions resourceType DELETE True options))"
  by (simp add: unsubscribe_def split: prod.splits sum.splits)

lemma unsubscribe_result:
  "snd (unsubscribe this pid resourceType options)
     = (case snd (request this pid (withOptions resourceType DELETE True options)) of
          Inl e \<Rightarrow> Inl e | Inr w \<Rightarrow> Inr None)"
  by (simp add: unsubscribe_def split: prod.splits sum.splits)

lemma unsubscribe_resolved:
  "snd (unsubscribe this pid resourceType options) = Inr v \<Longrightarrow>
   \<exists>w. snd (request this pid (withOptions resourceType DELETE True options)) = Inr w"
  by (auto simp: unsubscribe_def split: prod.splits sum.splits)

section \<open>The steps of \<open>NotificationService._request\<close>\<close>

lemma service_request_resolved:
  assumes "snd (service_request this pid opts) = Inr v"
  shows "\<exists>token.
     req_resourceType opts \<in> resourceTypes this
   \<and> getToken this () = Inr (Value token) \<and> token \<noteq> []
   \<and> kyCalls (fst (service_request this pid opts)) =
        [(encodeURIComponent (req_resourceType opts) @
            (if orDefault True (req_pidRequired opts)
             then ''/'' @ encodeURIComponent (case pid of Value p \<Rightarrow> p | _ \<Rightarrow> [])
             else []),
          \<lparr>ky_method = orDefault GET (req_method opts),
            ky_headers = Some (objectSpread [(''Authorization'', ''Bearer '' @ token)]
                                (case req_headers opts of Present h \<Rightarrow> h | _ \<Rightarrow> [])),
            ky_rest = req_rest opts\<rparr>)]"
  using assms
  by (auto simp: service_request_def validateResourceType_def Let_def kyCalls_append
           split: if_splits sum.splits nullable.splits)

lemma service_request_headers:
  assumes "snd (service_request this pid opts) = Inr v"
    and "getToken this () = Inr (Value token)"
    and "distinct (map fst (case req_headers opts of Present h \<Rightarrow> h | _ \<Rightarrow> []))"
  shows "\<exists>merged. sentHeaders (fst (service_request this pid opts)) = [Some merged]
           \<and> map_of merged = [''Authorization'' \<mapsto> ''Bearer '' @ token]
                ++ map_of (case req_headers opts of Present h \<Rightarrow> h | _ \<Rightarrow> [])"
  using service_request_resolved [OF assms(1)] assms(2) map_of_objectSpread [OF assms(3)]
  by (auto simp: sentHeaders_def)

section \<open>Evaluating a call on the mocks\<close>

text \<open>The equations that \<open>simp\<close> needs to run a call on the mock client.\<close>

lemmas run_call =
  subscribe_def unsubscribe_def getSubscriptions_def request_def
  Let_def withOptions_def noOptions_def spread_def orDefault_def
  mockClient_def mockResponse_def DEFAULT_TYPES_def
  trim_def isWhiteSpace_def
  encodeURIComponent_def encodeChar_def uriUnescaped_def percentByte_def hexDigit_def

section \<open>The test suite, replayed on the model\<close>

text \<open>
  The repository's tests build a client on mocks and check what the transport receives
  and what the call returns. The model gives the same observations: the constructor
  strips the trailing slash and takes the default resource types; \<open>subscribe\<close> posts to
  \<open>datasetChanges/pid-123\<close> with the bearer token, decodes the body once and returns it
  after one call of the token supplier; \<open>unsubscribe\<close> sends \<open>DELETE\<close> and resolves to
  \<open>undefined\<close> on a 204; \<open>getSubscriptions\<close> sends \<open>GET\<close> to \<open>datasetChanges\<close>.
\<close>

lemma test_instantiates_a_client:
  "\<exists>client. newNotificationClient mockKyCreate
                (mockConfig (Value ''https://api.example.org/v1/'') None) = Inr client
     \<and> prefixUrl client = ''https://api.example.org/v1''
     \<and> resourceTypes client = {''datasetChanges'', ''citations''}"
  by (simp add: newNotificationClient_def mockConfig_def normalizeResourceTypes_def
        arrayFromSet_def setAdd_def DEFAULT_TYPES_def trim_def isWhiteSpace_def
        stripTrailingSlashes_def Let_def)

lemma test_subscribes_to_a_PID:
  "subscribe (mockClient (Inr (Value ''token-123'')) (Inr True) 200 (Inr ''subscription''))
      (Value ''pid-123'') ''datasetChanges'' (noOptions ())
   = ([ValidatePID ''pid-123'', GetToken,
       Ky ''datasetChanges/pid-123''
         \<lparr>ky_method = POST, ky_headers = Some [(''Authorization'', ''Bearer token-123'')],
          ky_rest = ()\<rparr>,
       Json],
      Inr (Some ''subscription''))"
  by (simp add: run_call)

lemma test_unsubscribes_with_DELETE:
  "unsubscribe (mockClient (Inr (Value ''token-abc'')) (Inr True) 204 (Inr ''''))
      (Value ''pid-999'') ''datasetChanges'' (noOptions ())
   = ([ValidatePID ''pid-999'', GetToken,
       Ky ''datasetChanges/pid-999''
         \<lparr>ky_method = DELETE, ky_headers = Some [(''Authorization'', ''Bearer token-abc'')],
          ky_rest = ()\<rparr>],
      Inr None)"
  by (simp add: run_call)

lemma test_fetches_subscriptions:
  "getSubscriptions (mockClient (Inr (Value ''token-xyz'')) (Inr True) 200 (Inr ''subscriptions''))
      ''datasetChanges'' (noOptions ())
   = ([GetToken,
       Ky ''datasetChanges''
         \<lparr>ky_method = GET, ky_headers = Some [(''Authorization'', ''Bearer token-xyz'')],
          ky_rest = ()\<rparr>,
       Json],
      Inr (Some ''subscriptions''))"
  by (simp add: run_call)

section \<open>C1: an unknown resource type is rejected before anything else happens\<close>

text \<open>
  Claim C1. A call of \<open>subscribe\<close>, \<open>unsubscribe\<close> or \<open>getSubscriptions\<close> whose resource
  type, once trimmed, is not in the client's set of allowed resource types fails with the
  \<open>TypeError\<close> "Invalid resource type" (the spec's ValidationError), and its log is empty:
  neither the token supplier nor the PID validator has been invoked, nor the transport.
  The resource type of a call is the \<open>resourceType\<close> argument, unless the options object
  carries a \<open>resourceType\<close> of its own, which the spread then puts in its place. The
  statement holds for every client, every PID and every options object.
\<close>

theorem invalid_resource_type_rejected_first:
  assumes "trim (case opt_resourceType options of None \<Rightarrow> resourceType | Some t \<Rightarrow> t)
             \<notin> resourceTypes this"
  shows "subscribe this pid resourceType options
           = ([], Inl (TypeError ''Invalid resource type''))
       \<and> unsubscribe this pid resourceType options
           = ([], Inl (TypeError ''Invalid resource type''))
       \<and> getSubscriptions this resourceType options
           = ([], Inl (TypeError ''Invalid resource type''))"
  using assms
  by (simp add: subscribe_def unsubscribe_def getSubscriptions_def withOptions_def
        request_invalid_type)

theorem invalid_resource_type_rejected_first_witness:
  "trim (case opt_resourceType (noOptions ()) of None \<Rightarrow> ''portals'' | Some t \<Rightarrow> t)
      \<notin> resourceTypes (mockClient (Inr (Value ''token-123'')) (Inr True) 200 (Inr ''{}''))
   \<and> subscribe (mockClient (Inr (Value ''token-123'')) (Inr True) 200 (Inr ''{}''))
        (Value ''pid-123'') ''portals'' (noOptions ())
      = ([], Inl (TypeError ''Invalid resource type''))
   \<and> unsubscribe (mockClient (Inr (Value ''token-123'')) (Inr True) 200 (Inr ''{}''))
        (Value ''pid-123'') ''portals'' (noOptions ())
      = ([], Inl (TypeError ''Invalid resource type''))
   \<and> getSubscriptions (mockClient (Inr (Value ''token-123'')) (Inr True) 200 (Inr ''{}''))
        ''portals'' (noOptions ())
      = ([], Inl (TypeError ''Invalid resource type''))"
proof -
  have h: "trim (case opt_resourceType (noOptions ()) of None \<Rightarrow> ''portals'' | Some t \<Rightarrow> t)
      \<notin> resourceTypes (mockClient (Inr (Value ''token-123'')) (Inr True) 200 (Inr ''{}''))"
    by (simp add: noOptions_def mockClient_def DEFAULT_TYPES_def trim_def isWhiteSpace_def)
  show ?thesis
    using h invalid_resource_type_rejected_first [OF h, of "Value ''pid-123''"] by simp
qed

section \<open>C2: the Authorization header and the caller's headers\<close>

text \<open>
  Claim C2 says that every successful call sends \<open>Authorization: Bearer <token>\<close>, and
  that headers supplied by the caller merge key by key on top of it. In
  \<open>NotificationClient\<close> they do not merge: \<open>request\<close> leaves \<open>headers\<close> among the rest
  of the options and spreads that rest after its own \<open>headers\<close> object, so a caller's
  \<open>headers\<close> object takes the place of the whole object. Below, a successful \<open>subscribe\<close>
  whose caller passes \<open>{ headers: { Accept: "application/json" } }\<close>, with no
  \<open>Authorization\<close> key, reaches the transport without the \<open>Authorization\<close> header.
\<close>

theorem caller_headers_replace_authorization:
  "subscribe (mockClient (Inr (Value ''token-123'')) (Inr True) 200 (Inr ''{}''))
      (Value ''pid-123'') ''datasetChanges''
      \<lparr>opt_resourceType = None, opt_method = Absent, opt_pidRequired = Absent,
       opt_headers = Present [(''Accept'', ''application/json'')], opt_rest = ()\<rparr>
   = ([ValidatePID ''pid-123'', GetToken,
       Ky ''datasetChanges/pid-123''
         \<lparr>ky_method = POST, ky_headers = Some [(''Accept'', ''application/json'')],
          ky_rest = ()\<rparr>,
       Json],
      Inr (Some ''{}''))"
  by (simp add: run_call)

text \<open>
  Claim C2, amended. For every successful call of \<open>NotificationClient\<close> (\<open>subscribe\<close>,
  \<open>unsubscribe\<close>, \<open>getSubscriptions\<close>) whose options carry no \<open>headers\<close> key, as the type
  \<open>KyRequestOptions\<close> requires, the transport is invoked once, with the headers object
  \<open>{ Authorization: "Bearer " + token }\<close>, the token being the one the token supplier
  resolved to. For every successful call of the JavaScript client \<open>NotificationService\<close>
  the transport is invoked once, with the caller's headers merged key by key over that
  object: the header map sent is the library's \<open>Authorization\<close> entry overridden by the
  caller's entries, so \<open>Authorization\<close> is \<open>"Bearer " + token\<close> unless the caller's
  headers have an \<open>Authorization\<close> key of their own. (The keys of the caller's headers
  object are distinct, as those of any object.)
\<close>

theorem authorization_header_sent:
  assumes "getToken this () = Inr (Value token)"
  shows "(opt_headers options = Absent \<longrightarrow>
           (snd (subscribe this pid resourceType options) = Inr v1 \<longrightarrow>
              sentHeaders (fst (subscribe this pid resourceType options))
                = [Some [(''Authorization'', ''Bearer '' @ token)]])
         \<and> (snd (unsubscribe this pid resourceType options) = Inr v2 \<longrightarrow>
              sentHeaders (fst (unsubscribe this pid resourceType options))
                = [Some [(''Authorization'', ''Bearer '' @ token)]])
         \<and> (snd (getSubscriptions this resourceType options) = Inr v3 \<longrightarrow>
              sentHeaders (fst (getSubscriptions this resourceType options))
                = [Some [(''Authorization'', ''Bearer '' @ token)]]))
       \<and> (distinct (map fst callerHeaders)
            \<and> callerHeaders = (case opt_headers options of Present h \<Rightarrow> h | _ \<Rightarrow> []) \<longrightarrow>
           (snd (service_subscribe this pid resourceType options) = Inr v4 \<longrightarrow>
              (\<exists>merged. sentHeaders (fst (service_subscribe this pid resourceType options))
                           = [Some merged]
                 \<and> map_of merged
                     = [''Authorization'' \<mapsto> ''Bearer '' @ token] ++ map_of callerHeaders))
         \<and> (snd (service_unsubscribe this pid resourceType options) = Inr v5 \<longrightarrow>
              (\<exists>merged. sentHeaders (fst (service_unsubscribe this pid resourceType options))
                           = [Some merged]
                 \<and> map_of merged
                     = [''Authorization'' \<mapsto> ''Bearer '' @ token] ++ map_of callerHeaders))
         \<and> (snd (service_getSubscriptions this resourceType options) = Inr v6 \<longrightarrow>
              (\<exists>merged. sentHeaders (fst (service_getSubscriptions this resourceType options))
                           = [Some merged]
                 \<and> map_of merged
                     = [''Authorization'' \<mapsto> ''Bearer '' @ token] ++ map_of callerHeaders)))"
proof (intro conjI impI; (elim conjE)?)
  assume absent: "opt_headers options = Absent"
  then have a: "req_headers (withOptions resourceType m p options) = Absent" for m p
    by (simp add: withOptions_def)
  {
    assume "snd (subscribe this pid resourceType options) = Inr v1"
    then show "sentHeaders (fst (subscribe this pid resourceType options))
                = [Some [(''Authorization'', ''Bearer '' @ token)]]"
      unfolding subscribe_def by (rule request_headers [OF _ a assms])
  next
    assume "snd (unsubscribe this pid resourceType options) = Inr v2"
    from unsubscribe_resolved [OF this] obtain w
      where "snd (request this pid (withOptions resourceType DELETE True options)) = Inr w" ..
    then show "sentHeaders (fst (unsubscribe this pid resourceType options))
                = [Some [(''Authorization'', ''Bearer '' @ token)]]"
      unfolding unsubscribe_log by (rule request_headers [OF _ a assms])
  next
    assume "snd (getSubscriptions this resourceType options) = Inr v3"
    then show "sentHeaders (fst (getSubscriptions this resourceType options))
                = [Some [(''Authorization'', ''Bearer '' @ token)]]"
      unfolding getSubscriptions_def by (rule request_headers [OF _ a assms])
  }
next
  assume d: "distinct (map fst callerHeaders)"
    and c: "callerHeaders = (case opt_headers options of Present h \<Rightarrow> h | _ \<Rightarrow> [])"
  have h: "(case req_headers (withOptions resourceType m p options) of
              Present h \<Rightarrow> h | _ \<Rightarrow> []) = callerHeaders" for m p
    by (simp add: withOptions_def c)
  have d': "distinct (map fst (case req_headers (withOptions resourceType m p options) of
                                 Present h \<Rightarrow> h | _ \<Rightarrow> []))" for m p
    using d by (simp add: h)
  {
    assume "snd (service_subscribe this pid resourceType options) = Inr v4"
    then have ok: "snd (service_request this pid (withOptions resourceType POST True options))
                     = Inr v4"
      by (simp add: service_subscribe_def)
    from service_request_headers [OF ok assms d']
    show "\<exists>merged. sentHeaders (fst (service_subscribe this pid resourceType options))
                           = [Some merged]
                 \<and> map_of merged
                     = [''Authorization'' \<mapsto> ''Bearer '' @ token] ++ map_of callerHeaders"
      by (simp add: service_subscribe_def h)
  next
    assume "snd (service_unsubscribe this pid resourceType options) = Inr v5"
    then have ok: "snd (service_request this pid (withOptions resourceType DELETE True options))
                     = Inr v5"
      by (simp add: service_unsubscribe_def)
    from service_request_headers [OF ok assms d']
    show "\<exists>merged. sentHeaders (fst (service_unsubscribe this pid resourceType options))
                           = [Some merged]
                 \<and> map_of merged
                     = [''Authorization'' \<mapsto> ''Bearer '' @ token] ++ map_of callerHeaders"
      by (simp add: service_unsubscribe_def h)
  next
    assume "snd (service_getSubscriptions this resourceType options) = Inr v6"
    then have ok: "snd (service_request this Null (withOptions resourceType GET False options))
                     = Inr v6"
      by (simp add: service_getSubscriptions_def)
    from service_request_headers [OF ok assms d']
    show "\<exists>merged. sentHeaders (fst (service_getSubscriptions this resourceType options))
                           = [Some merged]
                 \<and> map_of merged
                     = [''Authorization'' \<mapsto> ''Bearer '' @ token] ++ map_of callerHeaders"
      by (simp add: service_getSubscriptions_def h)
  }
qed

theorem authorization_header_sent_witness:
  "getToken (mockClient (Inr (Value ''token-123'')) (Inr True) 200 (Inr ''{}'')) ()
     = Inr (Value ''token-123'')
   \<and> opt_headers (noOptions ()) = Absent
   \<and> snd (subscribe (mockClient (Inr (Value ''token-123'')) (Inr True) 200 (Inr ''{}''))
        (Value ''pid-123'') ''datasetChanges'' (noOptions ())) = Inr (Some ''{}'')
   \<and> sentHeaders (fst (subscribe (mockClient (Inr (Value ''token-123'')) (Inr True) 200 (Inr ''{}''))
        (Value ''pid-123'') ''datasetChanges'' (noOptions ())))
     = [Some [(''Authorization'', ''Bearer token-123'')]]
   \<and> distinct (map fst [(''Accept'', ''application/json'')])
   \<and> snd (service_subscribe (mockClient (Inr (Value ''token-123'')) (Inr True) 200 (Inr ''{}''))
        (Value ''pid-123'') ''datasetChanges''
        ((noOptions ())\<lparr>opt_headers := Present [(''Accept'', ''application/json'')]\<rparr>))
     = Inr (Some ''{}'')
   \<and> sentHeaders (fst (service_subscribe
        (mockClient (Inr (Value ''token-123'')) (Inr True) 200 (Inr ''{}''))
        (Value ''pid-123'') ''datasetChanges''
        ((noOptions ())\<lparr>opt_headers := Present [(''Accept'', ''application/json'')]\<rparr>)))
     = [Some [(''Authorization'', ''Bearer token-123''), (''Accept'', ''application/json'')]]"
proof -
  let ?c = "mockClient (Inr (Value ''token-123'')) (Inr True) 200 (Inr ''{}'')"
  let ?o = "(noOptions ())\<lparr>opt_headers := Present [(''Accept'', ''application/json'')]\<rparr>"
  have h: "getToken ?c () = Inr (Value ''token-123'')" by (simp add: mockClient_def)
  have own: "sentHeaders (fst (subscribe ?c (Value ''pid-123'') ''datasetChanges'' (noOptions ())))
               = [Some [(''Authorization'', ''Bearer token-123'')]]"
    using authorization_header_sent [OF h, of "noOptions ()" "Value ''pid-123''"
        "''datasetChanges''" "Some ''{}''"]
    by (simp add: run_call)
  have merged: "sentHeaders (fst (service_subscribe ?c (Value ''pid-123'') ''datasetChanges'' ?o))
     = [Some [(''Authorization'', ''Bearer token-123''), (''Accept'', ''application/json'')]]"
    by (simp add: run_call sentHeaders_def service_subscribe_def service_request_def
          validateResourceType_def objectSpread_def)
  have resolved: "snd (service_subscribe ?c (Value ''pid-123'') ''datasetChanges'' ?o)
                    = Inr (Some ''{}'')"
    by (simp add: run_call service_subscribe_def service_request_def
          validateResourceType_def objectSpread_def)
  have svc: "\<exists>sent. sentHeaders (fst (service_subscribe ?c (Value ''pid-123'') ''datasetChanges'' ?o))
                  = [Some sent]
          \<and> map_of sent = [''Authorization'' \<mapsto> ''Bearer token-123'']
                             ++ map_of [(''Accept'', ''application/json'')]"
    using authorization_header_sent [OF h, of ?o "Value ''pid-123''" "''datasetChanges''" _ _ _
        "[(''Accept'', ''application/json'')]" "Some ''{}''"] resolved
    by (simp add: noOptions_def)
  have absent: "opt_headers (noOptions ()) = Absent" by (simp add: noOptions_def)
  have ok: "snd (subscribe ?c (Value ''pid-123'') ''datasetChanges'' (noOptions ()))
              = Inr (Some ''{}'')"
    by (simp add: run_call)
  show ?thesis
    using h absent ok own resolved merged svc by simp
qed

section \<open>C3: resource types that normalize to nothing\<close>




section \<open>C4: a missing PID is rejected before the validator and the token supplier\<close>

text \<open>
  Claim C4. For every client and every allowed resource type, \<open>subscribe\<close> and
  \<open>unsubscribe\<close> called with a PID that is \<open>null\<close>, \<open>undefined\<close>, empty or made of
  white space only (so that it trims to the empty string, see \<open>trim_empty_iff\<close>) fail with
  the \<open>TypeError\<close> "PID is required", and the log is empty: neither the PID validator
  nor the token supplier has been invoked. The calls are those whose options leave
  \<open>resourceType\<close> alone and do not switch \<open>pidRequired\<close> off, which includes the call
  without options and every options object of the declared type.
\<close>

theorem missing_pid_rejected:
  assumes "trim resourceType \<in> resourceTypes this"
    and "opt_resourceType options = None"
    and "opt_pidRequired options \<noteq> Present False"
    and "pid = Null \<or> pid = Undefined \<or> (\<exists>p. pid = Value p \<and> trim p = [])"
  shows "subscribe this pid resourceType options = ([], Inl (TypeError ''PID is required''))
       \<and> unsubscribe this pid resourceType options = ([], Inl (TypeError ''PID is required''))"
proof -
  have empty: "(case pid of Value p \<Rightarrow> trim p | _ \<Rightarrow> []) = []"
    using assms(4) by auto
  have required: "orDefault True (spread (Present True) (opt_pidRequired options))"
    using assms(3) by (rule pidRequired_kept)
  have "request this pid (withOptions resourceType m True options)
          = ([], Inl (TypeError ''PID is required''))" for m
    by (rule request_no_pid) (simp_all add: withOptions_def assms(1,2) required empty)
  then show ?thesis by (simp add: subscribe_def unsubscribe_def)
qed

theorem missing_pid_rejected_witness:
  "trim ''datasetChanges'' \<in> resourceTypes (mockClient (Inr (Value ''token-123'')) (Inr True) 200 (Inr ''{}''))
   \<and> opt_resourceType (noOptions ()) = None
   \<and> opt_pidRequired (noOptions ()) \<noteq> Present False
   \<and> trim ''  '' = []
   \<and> subscribe (mockClient (Inr (Value ''token-123'')) (Inr True) 200 (Inr ''{}''))
        (Value ''  '') ''datasetChanges'' (noOptions ())
      = ([], Inl (TypeError ''PID is required''))
   \<and> unsubscribe (mockClient (Inr (Value ''token-123'')) (Inr True) 200 (Inr ''{}''))
        Null ''datasetChanges'' (noOptions ())
      = ([], Inl (TypeError ''PID is required''))"
proof -
  let ?c = "mockClient (Inr (Value ''token-123'')) (Inr True) 200 (Inr ''{}'')"
  have h1: "trim ''datasetChanges'' \<in> resourceTypes ?c"
    by (simp add: mockClient_def DEFAULT_TYPES_def trim_def isWhiteSpace_def)
  have h2: "opt_resourceType (noOptions ()) = None" by (simp add: noOptions_def)
  have h3: "opt_pidRequired (noOptions ()) \<noteq> Present False" by (simp add: noOptions_def)
  have h4: "trim ''  '' = []" by (simp add: trim_def isWhiteSpace_def)
  have a: "Value ''  '' = Null \<or> Value ''  '' = Undefined \<or> (\<exists>p. Value ''  '' = Value p \<and> trim p = [])"
    using h4 by simp
  have b: "(Null :: string nullable) = Null \<or> (Null :: string nullable) = Undefined \<or> (\<exists>p. Null = Value p \<and> trim p = [])"
    by simp
  show ?thesis
    using h1 h2 h3 h4 missing_pid_rejected [OF h1 h2 h3 a] missing_pid_rejected [OF h1 h2 h3 b]
    by simp
qed

section \<open>C5: a PID the validator refuses is rejected before the token supplier\<close>

text \<open>
  Claim C5. For every client whose PID validator resolves to \<open>false\<close> on the trimmed
  PID, \<open>subscribe\<close> and \<open>unsubscribe\<close> with an allowed resource type and a PID that is
  not empty after trimming fail with the \<open>TypeError\<close> "PID is invalid". The log holds
  the one call of the validator, on the trimmed PID, and nothing else: the token supplier
  has not been invoked. As in C4, the calls are those whose options leave \<open>resourceType\<close>
  alone and do not switch \<open>pidRequired\<close> off.
\<close>

theorem invalid_pid_rejected_before_token:
  assumes "trim resourceType \<in> resourceTypes this"
    and "opt_resourceType options = None"
    and "opt_pidRequired options \<noteq> Present False"
    and "trim p \<noteq> []"
    and "validatePID this (trim p) = Inr False"
  shows "subscribe this (Value p) resourceType options
           = ([ValidatePID (trim p)], Inl (TypeError ''PID is invalid''))
       \<and> unsubscribe this (Value p) resourceType options
           = ([ValidatePID (trim p)], Inl (TypeError ''PID is invalid''))"
proof -
  have required: "orDefault True (spread (Present True) (opt_pidRequired options))"
    using assms(3) by (rule pidRequired_kept)
  have "request this (Value p) (withOptions resourceType m True options)
          = ([ValidatePID (trim p)], Inl (TypeError ''PID is invalid''))" for m
    by (rule request_invalid_pid) (simp_all add: withOptions_def assms required)
  then show ?thesis by (simp add: subscribe_def unsubscribe_def)
qed

theorem invalid_pid_rejected_before_token_witness:
  "trim ''citations'' \<in> resourceTypes (mockClient (Inr (Value ''token-123'')) (Inr False) 200 (Inr ''{}''))
   \<and> opt_resourceType (noOptions ()) = None
   \<and> opt_pidRequired (noOptions ()) \<noteq> Present False
   \<and> trim '' pid-123'' \<noteq> []
   \<and> validatePID (mockClient (Inr (Value ''token-123'')) (Inr False) 200 (Inr ''{}'')) (trim '' pid-123'') = Inr False
   \<and> subscribe (mockClient (Inr (Value ''token-123'')) (Inr False) 200 (Inr ''{}''))
        (Value '' pid-123'') ''citations'' (noOptions ())
      = ([ValidatePID ''pid-123''], Inl (TypeError ''PID is invalid''))
   \<and> unsubscribe (mockClient (Inr (Value ''token-123'')) (Inr False) 200 (Inr ''{}''))
        (Value '' pid-123'') ''citations'' (noOptions ())
      = ([ValidatePID ''pid-123''], Inl (TypeError ''PID is invalid''))"
proof -
  let ?c = "mockClient (Inr (Value ''token-123'')) (Inr False) 200 (Inr ''{}'')"
  have t: "trim '' pid-123'' = ''pid-123''" by (simp add: trim_def isWhiteSpace_def)
  have h1: "trim ''citations'' \<in> resourceTypes ?c"
    by (simp add: mockClient_def DEFAULT_TYPES_def trim_def isWhiteSpace_def)
  have h2: "opt_resourceType (noOptions ()) = None" by (simp add: noOptions_def)
  have h3: "opt_pidRequired (noOptions ()) \<noteq> Present False" by (simp add: noOptions_def)
  have h4: "trim '' pid-123'' \<noteq> []" by (simp add: t)
  have h5: "validatePID ?c (trim '' pid-123'') = Inr False" by (simp add: mockClient_def)
  show ?thesis
    using h1 h2 h3 h4 h5 invalid_pid_rejected_before_token [OF h1 h2 h3 h4 h5]
    by (simp add: t)
qed

section \<open>C6: a missing token is rejected after validation and before the transport\<close>

text \<open>
  Claim C6. For every client whose token supplier resolves to \<open>null\<close>, \<open>undefined\<close>
  or the empty string, \<open>subscribe\<close> and \<open>unsubscribe\<close> with an allowed resource type and
  a PID that is not empty after trimming and that the validator accepts fail with the
  \<open>Error\<close> "Token is required" (the spec's AuthError). The log is exactly one call of
  the PID validator followed by one call of the token supplier: the transport has not
  been invoked. As in C4, the calls are those whose options leave \<open>resourceType\<close> alone
  and do not switch \<open>pidRequired\<close> off.
\<close>

theorem missing_token_rejected_after_validation:
  assumes "trim resourceType \<in> resourceTypes this"
    and "opt_resourceType options = None"
    and "opt_pidRequired options \<noteq> Present False"
    and "trim p \<noteq> []"
    and "validatePID this (trim p) = Inr True"
    and "getToken this () = Inr token"
    and "token = Null \<or> token = Undefined \<or> token = Value ''''"
  shows "subscribe this (Value p) resourceType options
           = ([ValidatePID (trim p), GetToken], Inl (Error ''Token is required''))
       \<and> unsubscribe this (Value p) resourceType options
           = ([ValidatePID (trim p), GetToken], Inl (Error ''Token is required''))"
proof -
  have required: "orDefault True (spread (Present True) (opt_pidRequired options))"
    using assms(3) by (rule pidRequired_kept)
  have "request this (Value p) (withOptions resourceType m True options)
          = ([ValidatePID (trim p), GetToken], Inl (Error ''Token is required''))" for m
    by (rule request_no_token [where token = token])
       (simp_all add: withOptions_def assms(1,2,4,5,6,7) required)
  then show ?thesis by (simp add: subscribe_def unsubscribe_def)
qed

theorem missing_token_rejected_after_validation_witness:
  "trim ''citations'' \<in> resourceTypes (mockClient (Inr (Value '''')) (Inr True) 200 (Inr ''{}''))
   \<and> opt_resourceType (noOptions ()) = None
   \<and> opt_pidRequired (noOptions ()) \<noteq> Present False
   \<and> trim ''pid-123'' \<noteq> []
   \<and> validatePID (mockClient (Inr (Value '''')) (Inr True) 200 (Inr ''{}'')) (trim ''pid-123'') = Inr True
   \<and> getToken (mockClient (Inr (Value '''')) (Inr True) 200 (Inr ''{}'')) () = Inr (Value '''')
   \<and> subscribe (mockClient (Inr (Value '''')) (Inr True) 200 (Inr ''{}''))
        (Value ''pid-123'') ''citations'' (noOptions ())
      = ([ValidatePID ''pid-123'', GetToken], Inl (Error ''Token is required''))
   \<and> unsubscribe (mockClient (Inr (Value '''')) (Inr True) 200 (Inr ''{}''))
        (Value ''pid-123'') ''citations'' (noOptions ())
      = ([ValidatePID ''pid-123'', GetToken], Inl (Error ''Token is required''))"
proof -
  let ?c = "mockClient (Inr (Value '''')) (Inr True) 200 (Inr ''{}'')"
  have t: "trim ''pid-123'' = ''pid-123''" by (simp add: trim_def isWhiteSpace_def)
  have h1: "trim ''citations'' \<in> resourceTypes ?c"
    by (simp add: mockClient_def DEFAULT_TYPES_def trim_def isWhiteSpace_def)
  have h2: "opt_resourceType (noOptions ()) = None" by (simp add: noOptions_def)
  have h3: "opt_pidRequired (noOptions ()) \<noteq> Present False" by (simp add: noOptions_def)
  have h4: "trim ''pid-123'' \<noteq> []" by (simp add: t)
  have h5: "validatePID ?c (trim ''pid-123'') = Inr True" by (simp add: mockClient_def)
  have h6: "getToken ?c () = Inr (Value '''')" by (simp add: mockClient_def)
  have h7: "Value '''' = Null \<or> Value '''' = Undefined \<or> Value '''' = (Value '''' :: string nullable)" by simp
  show ?thesis
    using h1 h2 h3 h4 h5 h6 missing_token_rejected_after_validation [OF h1 h2 h3 h4 h5 h6 h7]
    by (simp add: t)
qed

section \<open>C7: listing subscriptions never invokes the PID validator\<close>

text \<open>
  Claim C7. For every client, every resource type and every options object, whatever
  the PID validator would answer, the log of \<open>getSubscriptions\<close> holds no call of the
  PID validator. The operation passes \<open>null\<close> as the PID, so even options that switch
  \<open>pidRequired\<close> on only make the call fail with "PID is required".
\<close>

theorem getSubscriptions_never_validates:
  "validatorCalls (fst (getSubscriptions this resourceType options)) = []"
  by (simp add: getSubscriptions_def request_null_never_validates)

theorem getSubscriptions_never_validates_witness:
  "validatorCalls (fst (getSubscriptions
      (mockClient (Inr (Value ''token-xyz'')) (Inr False) 200 (Inr ''[]''))
      ''datasetChanges'' ((noOptions ())\<lparr>opt_pidRequired := Present True\<rparr>))) = []
   \<and> getSubscriptions (mockClient (Inr (Value ''token-xyz'')) (Inr False) 200 (Inr ''[]''))
      ''datasetChanges'' (noOptions ())
     = ([GetToken,
         Ky ''datasetChanges'' \<lparr>ky_method = GET,
            ky_headers = Some [(''Authorization'', ''Bearer token-xyz'')], ky_rest = ()\<rparr>,
         Json], Inr (Some ''[]''))"
proof -
  have "getSubscriptions (mockClient (Inr (Value ''token-xyz'')) (Inr False) 200 (Inr ''[]''))
      ''datasetChanges'' (noOptions ())
     = ([GetToken,
         Ky ''datasetChanges'' \<lparr>ky_method = GET,
            ky_headers = Some [(''Authorization'', ''Bearer token-xyz'')], ky_rest = ()\<rparr>,
         Json], Inr (Some ''[]''))"
    by (simp add: run_call)
  then show ?thesis
    using getSubscriptions_never_validates
      [of "mockClient (Inr (Value ''token-xyz'')) (Inr False) 200 (Inr ''[]'')"
          "''datasetChanges''" "(noOptions ())\<lparr>opt_pidRequired := Present True\<rparr>"]
    by simp
qed

section \<open>C8: interpreting the response\<close>

text \<open>
  Claim C8 says that for a status other than 204, 205 and 304 the body is decoded and
  the decoded value is returned. \<open>unsubscribe\<close> awaits the request and returns nothing, so
  it decodes the body and then resolves to \<open>undefined\<close>: below, the transport answers
  200 with a body, the JSON decoder is invoked, and the result is \<open>Inr None\<close>.
\<close>

theorem unsubscribe_drops_the_body:
  "unsubscribe (mockClient (Inr (Value ''token-abc'')) (Inr True) 200 (Inr ''{}''))
      (Value ''pid-999'') ''datasetChanges'' (noOptions ())
   = ([ValidatePID ''pid-999'', GetToken,
       Ky ''datasetChanges/pid-999''
         \<lparr>ky_method = DELETE, ky_headers = Some [(''Authorization'', ''Bearer token-abc'')],
          ky_rest = ()\<rparr>,
       Json],
      Inr None)"
  by (simp add: run_call)

text \<open>
  Claim C8, amended. For every call of \<open>subscribe\<close>, \<open>getSubscriptions\<close> or \<open>unsubscribe\<close>
  in which the transport returns a response: when the status is 204, 205 or 304 the
  operation resolves to \<open>undefined\<close> and the JSON decoder is not invoked; for every other
  status the JSON decoder is invoked, a failure of it reaches the caller as it is, and the
  decoded value is what \<open>subscribe\<close> and \<open>getSubscriptions\<close> resolve to, while
  \<open>unsubscribe\<close> resolves to \<open>undefined\<close>. "The transport returns a response" reads: the
  log holds one transport call, and the transport answers that call with the response.
\<close>

theorem response_interpreted:
  "(kyCalls (fst (subscribe this pid resourceType options)) = [(endpoint, kyOptions)]
      \<and> ky this endpoint kyOptions = Inr response
    \<longrightarrow> snd (subscribe this pid resourceType options)
          = (if status response \<in> {204, 205, 304} then Inr None
             else case json response () of
                    Inl e \<Rightarrow> Inl (Rejected e) | Inr body \<Rightarrow> Inr (Some body))
        \<and> (Json \<in> set (fst (subscribe this pid resourceType options))
             \<longleftrightarrow> status response \<notin> {204, 205, 304}))
   \<and> (kyCalls (fst (getSubscriptions this resourceType options)) = [(endpoint, kyOptions)]
      \<and> ky this endpoint kyOptions = Inr response
    \<longrightarrow> snd (getSubscriptions this resourceType options)
          = (if status response \<in> {204, 205, 304} then Inr None
             else case json response () of
                    Inl e \<Rightarrow> Inl (Rejected e) | Inr body \<Rightarrow> Inr (Some body))
        \<and> (Json \<in> set (fst (getSubscriptions this resourceType options))
             \<longleftrightarrow> status response \<notin> {204, 205, 304}))
   \<and> (kyCalls (fst (unsubscribe this pid resourceType options)) = [(endpoint, kyOptions)]
      \<and> ky this endpoint kyOptions = Inr response
    \<longrightarrow> snd (unsubscribe this pid resourceType options)
          = (if status response \<in> {204, 205, 304} then Inr None
             else case json response () of
                    Inl e \<Rightarrow> Inl (Rejected e) | Inr body \<Rightarrow> Inr None)
        \<and> (Json \<in> set (fst (unsubscribe this pid resourceType options))
             \<longleftrightarrow> status response \<notin> {204, 205, 304}))"
proof (intro conjI impI; elim conjE)
  assume "kyCalls (fst (subscribe this pid resourceType options)) = [(endpoint, kyOptions)]"
    and r: "ky this endpoint kyOptions = Inr response"
  then have c: "kyCalls (fst (request this pid (withOptions resourceType POST True options)))
                  = [(endpoint, kyOptions)]"
    by (simp add: subscribe_def)
  show "snd (subscribe this pid resourceType options)
          = (if status response \<in> {204, 205, 304} then Inr None
             else case json response () of
                    Inl e \<Rightarrow> Inl (Rejected e) | Inr body \<Rightarrow> Inr (Some body))"
    using request_after_transport(1) [OF c r] by (simp add: subscribe_def)
  show "Json \<in> set (fst (subscribe this pid resourceType options))
             \<longleftrightarrow> status response \<notin> {204, 205, 304}"
    using request_after_transport(2) [OF c r] by (simp add: subscribe_def)
next
  assume "kyCalls (fst (getSubscriptions this resourceType options)) = [(endpoint, kyOptions)]"
    and r: "ky this endpoint kyOptions = Inr response"
  then have c: "kyCalls (fst (request this Null (withOptions resourceType GET False options)))
                  = [(endpoint, kyOptions)]"
    by (simp add: getSubscriptions_def)
  show "snd (getSubscriptions this resourceType options)
          = (if status response \<in> {204, 205, 304} then Inr None
             else case json response () of
                    Inl e \<Rightarrow> Inl (Rejected e) | Inr body \<Rightarrow> Inr (Some body))"
    using request_after_transport(1) [OF c r] by (simp add: getSubscriptions_def)
  show "Json \<in> set (fst (getSubscriptions this resourceType options))
             \<longleftrightarrow> status response \<notin> {204, 205, 304}"
    using request_after_transport(2) [OF c r] by (simp add: getSubscriptions_def)
next
  assume "kyCalls (fst (unsubscribe this pid resourceType options)) = [(endpoint, kyOptions)]"
    and r: "ky this endpoint kyOptions = Inr response"
  then have c: "kyCalls (fst (request this pid (withOptions resourceType DELETE True options)))
                  = [(endpoint, kyOptions)]"
    by (simp add: unsubscribe_log)
  show "snd (unsubscribe this pid resourceType options)
          = (if status response \<in> {204, 205, 304} then Inr None
             else case json response () of
                    Inl e \<Rightarrow> Inl (Rejected e) | Inr body \<Rightarrow> Inr None)"
    using request_after_transport(1) [OF c r]
    by (simp add: unsubscribe_result split: sum.splits)
  show "Json \<in> set (fst (unsubscribe this pid resourceType options))
             \<longleftrightarrow> status response \<notin> {204, 205, 304}"
    using request_after_transport(2) [OF c r] by (simp add: unsubscribe_log)
qed

theorem response_interpreted_witness:
  "kyCalls (fst (subscribe (mockClient (Inr (Value ''token-123'')) (Inr True) 200 (Inr ''{}''))
        (Value ''p1'') ''citations'' (noOptions ())))
     = [(''citations/p1'',
         \<lparr>ky_method = POST, ky_headers = Some [(''Authorization'', ''Bearer token-123'')],
          ky_rest = ()\<rparr>)]
   \<and> ky (mockClient (Inr (Value ''token-123'')) (Inr True) 200 (Inr ''{}'')) ''citations/p1''
        \<lparr>ky_method = POST, ky_headers = Some [(''Authorization'', ''Bearer token-123'')],
         ky_rest = ()\<rparr>
     = Inr (mockResponse 200 (Inr ''{}''))
   \<and> snd (subscribe (mockClient (Inr (Value ''token-123'')) (Inr True) 200 (Inr ''{}''))
        (Value ''p1'') ''citations'' (noOptions ())) = Inr (Some ''{}'')
   \<and> Json \<in> set (fst (subscribe (mockClient (Inr (Value ''token-123'')) (Inr True) 200 (Inr ''{}''))
        (Value ''p1'') ''citations'' (noOptions ())))
   \<and> kyCalls (fst (unsubscribe (mockClient (Inr (Value ''token-123'')) (Inr True) 204 (Inr ''{}''))
        (Value ''p1'') ''citations'' (noOptions ())))
     = [(''citations/p1'',
         \<lparr>ky_method = DELETE, ky_headers = Some [(''Authorization'', ''Bearer token-123'')],
          ky_rest = ()\<rparr>)]
   \<and> ky (mockClient (Inr (Value ''token-123'')) (Inr True) 204 (Inr ''{}'')) ''citations/p1''
        \<lparr>ky_method = DELETE, ky_headers = Some [(''Authorization'', ''Bearer token-123'')],
         ky_rest = ()\<rparr>
     = Inr (mockResponse 204 (Inr ''{}''))
   \<and> snd (unsubscribe (mockClient (Inr (Value ''token-123'')) (Inr True) 204 (Inr ''{}''))
        (Value ''p1'') ''citations'' (noOptions ())) = Inr None
   \<and> Json \<notin> set (fst (unsubscribe (mockClient (Inr (Value ''token-123'')) (Inr True) 204 (Inr ''{}''))
        (Value ''p1'') ''citations'' (noOptions ())))
   \<and> kyCalls (fst (getSubscriptions (mockClient (Inr (Value ''token-123'')) (Inr True) 200 (Inl ()))
        ''citations'' (noOptions ())))
     = [(''citations'',
         \<lparr>ky_method = GET, ky_headers = Some [(''Authorization'', ''Bearer token-123'')],
          ky_rest = ()\<rparr>)]
   \<and> ky (mockClient (Inr (Value ''token-123'')) (Inr True) 200 (Inl ())) ''citations''
        \<lparr>ky_method = GET, ky_headers = Some [(''Authorization'', ''Bearer token-123'')],
         ky_rest = ()\<rparr>
     = Inr (mockResponse 200 (Inl ()))
   \<and> snd (getSubscriptions (mockClient (Inr (Value ''token-123'')) (Inr True) 200 (Inl ()))
        ''citations'' (noOptions ())) = Inl (Rejected ())"
proof -
  let ?ok = "mockClient (Inr (Value ''token-123'')) (Inr True) 200 (Inr ''{}'')"
  let ?empty = "mockClient (Inr (Value ''token-123'')) (Inr True) 204 (Inr ''{}'')"
  let ?broken = "mockClient (Inr (Value ''token-123'')) (Inr True) 200 (Inl ())"
  let ?h = "Some [(''Authorization'', ''Bearer token-123'')]"
  have c1: "kyCalls (fst (subscribe ?ok (Value ''p1'') ''citations'' (noOptions ())))
     = [(''citations/p1'', \<lparr>ky_method = POST, ky_headers = ?h, ky_rest = ()\<rparr>)]"
    by (simp add: run_call)
  have r1: "ky ?ok ''citations/p1'' \<lparr>ky_method = POST, ky_headers = ?h, ky_rest = ()\<rparr>
     = Inr (mockResponse 200 (Inr ''{}''))"
    by (simp add: mockClient_def)
  have c2: "kyCalls (fst (unsubscribe ?empty (Value ''p1'') ''citations'' (noOptions ())))
     = [(''citations/p1'', \<lparr>ky_method = DELETE, ky_headers = ?h, ky_rest = ()\<rparr>)]"
    by (simp add: run_call)
  have r2: "ky ?empty ''citations/p1'' \<lparr>ky_method = DELETE, ky_headers = ?h, ky_rest = ()\<rparr>
     = Inr (mockResponse 204 (Inr ''{}''))"
    by (simp add: mockClient_def)
  have c3: "kyCalls (fst (getSubscriptions ?broken ''citations'' (noOptions ())))
     = [(''citations'', \<lparr>ky_method = GET, ky_headers = ?h, ky_rest = ()\<rparr>)]"
    by (simp add: run_call)
  have r3: "ky ?broken ''citations'' \<lparr>ky_method = GET, ky_headers = ?h, ky_rest = ()\<rparr>
     = Inr (mockResponse 200 (Inl ()))"
    by (simp add: mockClient_def)
  have s1: "snd (subscribe ?ok (Value ''p1'') ''citations'' (noOptions ())) = Inr (Some ''{}'')
          \<and> Json \<in> set (fst (subscribe ?ok (Value ''p1'') ''citations'' (noOptions ())))"
    using response_interpreted [of ?ok "Value ''p1''" "''citations''" "noOptions ()"
        "''citations/p1''" "\<lparr>ky_method = POST, ky_headers = ?h, ky_rest = ()\<rparr>"
        "mockResponse 200 (Inr ''{}'')"] c1 r1
    by (simp add: mockResponse_def)
  have s2: "snd (unsubscribe ?empty (Value ''p1'') ''citations'' (noOptions ())) = Inr None
          \<and> Json \<notin> set (fst (unsubscribe ?empty (Value ''p1'') ''citations'' (noOptions ())))"
    using response_interpreted [of ?empty "Value ''p1''" "''citations''" "noOptions ()"
        "''citations/p1''" "\<lparr>ky_method = DELETE, ky_headers = ?h, ky_rest = ()\<rparr>"
        "mockResponse 204 (Inr ''{}'')"] c2 r2
    by (simp add: mockResponse_def)
  have s3: "snd (getSubscriptions ?broken ''citations'' (noOptions ())) = Inl (Rejected ())"
    using response_interpreted [of ?broken Null "''citations''" "noOptions ()"
        "''citations''" "\<lparr>ky_method = GET, ky_headers = ?h, ky_rest = ()\<rparr>"
        "mockResponse 200 (Inl ())"] c3 r3
    by (simp add: mockResponse_def)
  show ?thesis using c1 r1 s1 c2 r2 s2 c3 r3 s3 by simp
qed

section \<open>C9: the endpoint path\<close>

text \<open>
  Claim C9. For every successful call of \<open>subscribe\<close> or \<open>unsubscribe\<close> the transport is
  invoked once, and the endpoint it receives is the percent-encoded trimmed resource type,
  a \<open>/\<close>, and the percent-encoded trimmed PID; for every successful call of
  \<open>getSubscriptions\<close> it is the percent-encoded trimmed resource type alone. The output of
  \<open>encodeURIComponent\<close> never holds a \<open>/\<close>, and a \<open>/\<close> in its input comes out as
  \<open>%2F\<close>, so the \<open>/\<close> between the two components is the only one of the path. The calls
  are those whose options leave \<open>resourceType\<close> alone and, for \<open>subscribe\<close> and
  \<open>unsubscribe\<close>, do not switch \<open>pidRequired\<close> off (claim C10 is about the others).
\<close>

theorem endpoint_is_encoded_path:
  assumes "opt_resourceType options = None"
  shows "(snd (subscribe this pid resourceType options) = Inr v1
            \<and> opt_pidRequired options \<noteq> Present False
          \<longrightarrow> (\<exists>p. pid = Value p
                 \<and> endpoints (fst (subscribe this pid resourceType options))
                     = [encodeURIComponent (trim resourceType) @ ''/''
                          @ encodeURIComponent (trim p)]))
       \<and> (snd (unsubscribe this pid resourceType options) = Inr v2
            \<and> opt_pidRequired options \<noteq> Present False
          \<longrightarrow> (\<exists>p. pid = Value p
                 \<and> endpoints (fst (unsubscribe this pid resourceType options))
                     = [encodeURIComponent (trim resourceType) @ ''/''
                          @ encodeURIComponent (trim p)]))
       \<and> (snd (getSubscriptions this resourceType options) = Inr v3
          \<longrightarrow> endpoints (fst (getSubscriptions this resourceType options))
                = [encodeURIComponent (trim resourceType)])
       \<and> CHR ''/'' \<notin> set (encodeURIComponent s)
       \<and> encodeURIComponent (a @ ''/'' @ b)
           = encodeURIComponent a @ ''%2F'' @ encodeURIComponent b"
proof -
  have with_pid:
    "\<exists>p. pid = Value p
        \<and> endpoints (fst (request this pid (withOptions resourceType m True options)))
            = [encodeURIComponent (trim resourceType) @ ''/'' @ encodeURIComponent (trim p)]"
    if ok: "snd (request this pid (withOptions resourceType m True options)) = Inr v"
      and req: "opt_pidRequired options \<noteq> Present False" for m v
  proof -
    have required: "orDefault True (req_pidRequired (withOptions resourceType m True options))"
      using req by (simp add: withOptions_def pidRequired_kept)
    from request_resolved [OF ok] required assms show ?thesis
      by (auto simp: endpoints_def withOptions_def)
  qed
  have sub: "snd (subscribe this pid resourceType options) = Inr v1
            \<and> opt_pidRequired options \<noteq> Present False
          \<longrightarrow> (\<exists>p. pid = Value p
                 \<and> endpoints (fst (subscribe this pid resourceType options))
                     = [encodeURIComponent (trim resourceType) @ ''/''
                          @ encodeURIComponent (trim p)])"
    using with_pid [of POST v1] by (simp add: subscribe_def)
  have unsub: "snd (unsubscribe this pid resourceType options) = Inr v2
            \<and> opt_pidRequired options \<noteq> Present False
          \<longrightarrow> (\<exists>p. pid = Value p
                 \<and> endpoints (fst (unsubscribe this pid resourceType options))
                     = [encodeURIComponent (trim resourceType) @ ''/''
                          @ encodeURIComponent (trim p)])"
  proof (intro impI, elim conjE)
    assume ok: "snd (unsubscribe this pid resourceType options) = Inr v2"
      and req: "opt_pidRequired options \<noteq> Present False"
    from unsubscribe_resolved [OF ok] obtain w
      where "snd (request this pid (withOptions resourceType DELETE True options)) = Inr w" ..
    from with_pid [OF this req]
    show "\<exists>p. pid = Value p
            \<and> endpoints (fst (unsubscribe this pid resourceType options))
                = [encodeURIComponent (trim resourceType) @ ''/''
                     @ encodeURIComponent (trim p)]"
      by (simp add: unsubscribe_log)
  qed
  have list: "snd (getSubscriptions this resourceType options) = Inr v3
          \<longrightarrow> endpoints (fst (getSubscriptions this resourceType options))
                = [encodeURIComponent (trim resourceType)]"
  proof
    assume ok: "snd (getSubscriptions this resourceType options) = Inr v3"
    then have ok': "snd (request this Null (withOptions resourceType GET False options)) = Inr v3"
      by (simp add: getSubscriptions_def)
    from request_resolved [OF ok'] assms
    show "endpoints (fst (getSubscriptions this resourceType options))
            = [encodeURIComponent (trim resourceType)]"
      by (auto simp: endpoints_def getSubscriptions_def withOptions_def)
  qed
  have enc: "encodeURIComponent (a @ ''/'' @ b)
               = encodeURIComponent a @ ''%2F'' @ encodeURIComponent b"
    by (simp add: encodeURIComponent_def encodeChar_slash)
  show ?thesis using sub unsub list enc encodeURIComponent_no_slash by blast
qed

theorem endpoint_is_encoded_path_witness:
  "opt_resourceType (noOptions ()) = None
   \<and> opt_pidRequired (noOptions ()) \<noteq> Present False
   \<and> snd (subscribe (mockClient (Inr (Value ''token-123'')) (Inr True) 200 (Inr ''{}''))
        (Value '' a/b '') ''citations '' (noOptions ())) = Inr (Some ''{}'')
   \<and> endpoints (fst (subscribe (mockClient (Inr (Value ''token-123'')) (Inr True) 200 (Inr ''{}''))
        (Value '' a/b '') ''citations '' (noOptions ()))) = [''citations/a%2Fb'']
   \<and> snd (unsubscribe (mockClient (Inr (Value ''token-123'')) (Inr True) 204 (Inr ''{}''))
        (Value '' a/b '') ''citations '' (noOptions ())) = Inr None
   \<and> endpoints (fst (unsubscribe (mockClient (Inr (Value ''token-123'')) (Inr True) 204 (Inr ''{}''))
        (Value '' a/b '') ''citations '' (noOptions ()))) = [''citations/a%2Fb'']
   \<and> snd (getSubscriptions (mockClient (Inr (Value ''token-123'')) (Inr True) 200 (Inr ''{}''))
        ''citations '' (noOptions ())) = Inr (Some ''{}'')
   \<and> endpoints (fst (getSubscriptions (mockClient (Inr (Value ''token-123'')) (Inr True) 200 (Inr ''{}''))
        ''citations '' (noOptions ()))) = [''citations'']
   \<and> CHR ''/'' \<notin> set (encodeURIComponent ''a/b'')
   \<and> encodeURIComponent (''a'' @ ''/'' @ ''b'') = ''a%2Fb''"
proof -
  let ?c = "mockClient (Inr (Value ''token-123'')) (Inr True) 200 (Inr ''{}'')"
  let ?d = "mockClient (Inr (Value ''token-123'')) (Inr True) 204 (Inr ''{}'')"
  have h: "opt_resourceType (noOptions ()) = None" by (simp add: noOptions_def)
  have r: "opt_pidRequired (noOptions ()) \<noteq> Present False" by (simp add: noOptions_def)
  have s1: "snd (subscribe ?c (Value '' a/b '') ''citations '' (noOptions ())) = Inr (Some ''{}'')"
    by (simp add: run_call)
  have s2: "snd (unsubscribe ?d (Value '' a/b '') ''citations '' (noOptions ())) = Inr None"
    by (simp add: run_call)
  have s3: "snd (getSubscriptions ?c ''citations '' (noOptions ())) = Inr (Some ''{}'')"
    by (simp add: run_call)
  have t1: "trim ''citations '' = ''citations''" and t2: "trim '' a/b '' = ''a/b''"
    by (simp_all add: trim_def isWhiteSpace_def)
  have e1: "encodeURIComponent ''citations'' = ''citations''"
    and e2: "encodeURIComponent ''a/b'' = ''a%2Fb''"
    and e3: "encodeURIComponent ''a'' = ''a''" and e4: "encodeURIComponent ''b'' = ''b''"
    by (simp_all add: encodeURIComponent_def encodeChar_def uriUnescaped_def percentByte_def
          hexDigit_def)
  have first: "endpoints (fst (subscribe ?c (Value '' a/b '') ''citations '' (noOptions ())))
                 = [''citations/a%2Fb'']"
    using endpoint_is_encoded_path [OF h, of ?c "Value '' a/b ''" "''citations ''" "Some ''{}''"]
      s1 r
    by (simp add: t1 t2 e1 e2)
  have second: "endpoints (fst (unsubscribe ?d (Value '' a/b '') ''citations '' (noOptions ())))
                 = [''citations/a%2Fb'']"
    using endpoint_is_encoded_path [OF h, of ?d "Value '' a/b ''" "''citations ''" _ None]
      s2 r
    by (simp add: t1 t2 e1 e2)
  have third: "endpoints (fst (getSubscriptions ?c ''citations '' (noOptions ())))
                 = [''citations'']"
    using endpoint_is_encoded_path [OF h, of ?c _ "''citations ''" _ _ "Some ''{}''"]
      s3
    by (simp add: t1 e1)
  have fourth: "CHR ''/'' \<notin> set (encodeURIComponent ''a/b'')
              \<and> encodeURIComponent (''a'' @ ''/'' @ ''b'') = ''a%2Fb''"
    using endpoint_is_encoded_path [OF h, of ?c Null "''citations''" _ _ _ "''a/b''" "''a''" "''b''"]
    by (simp add: e3 e4)
  show ?thesis using h r s1 s2 s3 first second third fourth by simp
qed

section \<open>C10: the caller's options override the operation's own fields\<close>



end
